theory Spec2Isabelle
  imports Main
begin

section \<open>Data model\<close>

text \<open>
  Identifiers assigned by the REST store are JSON numbers or JSON strings
  (the controllers document them as \<open>number|string\<close>); \<open>1\<close> and \<open>"1"\<close> are
  different values for \<open>===\<close>, \<open>!==\<close> and \<open>Array.prototype.includes\<close>.
\<close>

datatype json_id = IdNum int | IdStr string

text \<open>A user record as the \<open>/users\<close> resource returns it.\<close>

record user =
  user_id :: json_id
  user_email :: string
  user_password :: string
  user_role :: string

text \<open>The object \<open>saveUserInfo\<close> writes to localStorage: \<open>{id, email, role}\<close>.\<close>

record session =
  session_id :: json_id
  session_email :: string
  session_role :: string

text \<open>
  The only key of localStorage the application uses is \<open>loggedInUser\<close>, and it
  writes it only through \<open>saveUserInfo\<close>, as the JSON of such an object. The store
  is modelled by the object that key holds (\<open>None\<close> when the key is absent).
\<close>

type_synonym localStorage = "session option"

text \<open>
  The outcome of one \<open>fetch\<close>: the promise rejects (transport failure), or it resolves
  to a response with its \<open>ok\<close> flag and its body.
\<close>

datatype 'a fetch_result = NetworkError | Response bool 'a

section \<open>auth.js: the session store\<close>

definition saveUserInfo :: "user \<Rightarrow> localStorage \<Rightarrow> localStorage" where
  "saveUserInfo u ls =
     Some \<lparr>session_id = user_id u, session_email = user_email u, session_role = user_role u\<rparr>"

definition logOut :: "localStorage \<Rightarrow> localStorage" where
  "logOut ls = None"

definition isAuthenticated :: "localStorage \<Rightarrow> bool" where
  "isAuthenticated ls = (ls \<noteq> None)"

definition getCurrentUser :: "localStorage \<Rightarrow> session option" where
  "getCurrentUser ls = ls"

section \<open>router.js: the navigation controller\<close>

text \<open>The static route table.\<close>

definition routes :: "string \<Rightarrow> string option" where
  "routes = map_of
     [(''/'', ''src/views/home.html''),
      (''/login'', ''src/views/login.html''),
      (''/register'', ''src/views/register.html''),
      (''/admin-dashboard'', ''src/views/admin-dashboard.html''),
      (''/visitor-dashboard'', ''src/views/visitor-dashboard.html''),
      (''/404'', ''src/views/404.html'')]"

text \<open>
  The view initializers \<open>handleLocation\<close> can assign to \<open>viewInitializer\<close>; the two
  dashboard initializers are closures over the session object read at the start of the
  cycle.
\<close>

datatype initializer =
    initializeLoginForm
  | initializeRegisterForm
  | initializeAdminDashboard session
  | initializeVisitorDashboard session

text \<open>
  \<open>user.role\<close> for the object \<open>getCurrentUser\<close> returned. The router reads it only
  behind \<open>isAuth\<close>, where the object is present (both come from the same key).
\<close>

definition userRole :: "session option \<Rightarrow> string option" where
  "userRole user = map_option session_role user"

text \<open>The links \<open>renderNavbar\<close> writes into the navigation bar, in order.\<close>

datatype nav_link = NavHome | NavLogin | NavRegister | NavEventManagement | NavMyEvents

text \<open>What a navigation cycle does to the browser, in the order it does it.\<close>

datatype effect =
    Navbar "nav_link list"
  | DashboardClass bool
  | PushState string
  | Fetch string
  | AppRoot string
  | RunInitializer initializer
  | AddLogoutButton

definition renderNavbar :: "localStorage \<Rightarrow> nav_link list" where
  "renderNavbar ls =
     (let isAuth = isAuthenticated ls; user = getCurrentUser ls in
      if isAuth
      then NavHome #
           (if userRole user = Some ''administrator'' then [NavEventManagement]
            else if userRole user = Some ''visitor'' then [NavMyEvents]
            else [])
      else [NavHome, NavLogin, NavRegister])"

definition updateBodyClass :: "string \<Rightarrow> bool" where
  "updateBodyClass path = (path = ''/admin-dashboard'' \<or> path = ''/visitor-dashboard'')"

text \<open>
  The guards and the \<open>switch\<close> of \<open>handleLocation\<close>, in the source's order: either the
  cycle ends in a call of \<open>navigateTo\<close> followed by \<open>return\<close>, or it reaches the
  rendering part with \<open>viewPath\<close> (\<open>None\<close> when the variable was never assigned and
  is \<open>undefined\<close>) and \<open>viewInitializer\<close> (\<open>None\<close> for \<open>null\<close>).
\<close>

datatype action = Redirect string | Render "string option" "initializer option"

definition resolveLocation :: "string \<Rightarrow> localStorage \<Rightarrow> action" where
  "resolveLocation path ls =
     (let isAuth = isAuthenticated ls; user = getCurrentUser ls in
      if \<not> isAuth \<and> (path = ''/admin-dashboard'' \<or> path = ''/visitor-dashboard'')
      then Redirect ''/login''
      else if isAuth \<and> (path = ''/login'' \<or> path = ''/register'')
      then Redirect (if userRole user = Some ''administrator''
                     then ''/admin-dashboard'' else ''/visitor-dashboard'')
      else if path = ''/'' \<or> path = ''/home'' then Render (routes ''/'') None
      else if path = ''/login'' then Render (routes ''/login'') (Some initializeLoginForm)
      else if path = ''/register''
      then Render (routes ''/register'') (Some initializeRegisterForm)
      else if path = ''/admin-dashboard'' then
        (case user of
           Some u \<Rightarrow>
             if isAuth \<and> session_role u = ''administrator''
             then Render (routes ''/admin-dashboard'') (Some (initializeAdminDashboard u))
             else if isAuth \<and> session_role u = ''visitor''
             then Redirect ''/visitor-dashboard''
             else Render None None
         | None \<Rightarrow> Render None None)
      else if path = ''/visitor-dashboard'' then
        (case user of
           Some u \<Rightarrow>
             if isAuth \<and> session_role u = ''visitor''
             then Render (routes ''/visitor-dashboard'') (Some (initializeVisitorDashboard u))
             else Redirect (if isAuth then ''/admin-dashboard'' else ''/login'')
         | None \<Rightarrow> Redirect (if isAuth then ''/admin-dashboard'' else ''/login''))
      else Render (routes ''/404'') None)"

text \<open>
  \<open>loadView\<close>: what it does, and whether it returned (\<open>False\<close> when the fallback
  fetch rejects as well and the exception leaves \<open>loadView\<close>). The parameter
  \<open>fetchView\<close> is the static file server. \<open>fetch(undefined)\<close> requests the URL
  \<open>undefined\<close>. The fallback does not look at the \<open>ok\<close> flag of its response.
\<close>

definition viewUrl :: "string option \<Rightarrow> string" where
  "viewUrl viewPath = (case viewPath of None \<Rightarrow> ''undefined'' | Some p \<Rightarrow> p)"

definition notFoundUrl :: string where
  "notFoundUrl = viewUrl (routes ''/404'')"

definition loadView :: "(string \<Rightarrow> string fetch_result) \<Rightarrow> string option \<Rightarrow> effect list \<times> bool" where
  "loadView fetchView viewPath =
     (case fetchView (viewUrl viewPath) of
        Response True html \<Rightarrow> ([Fetch (viewUrl viewPath), AppRoot html], True)
      | _ \<Rightarrow>
          (case fetchView notFoundUrl of
             NetworkError \<Rightarrow> ([Fetch (viewUrl viewPath), Fetch notFoundUrl], False)
           | Response ok html \<Rightarrow>
               ([Fetch (viewUrl viewPath), Fetch notFoundUrl, AppRoot html], True)))"

text \<open>
  The number of redirects still ahead of a path, for the termination of the re-entry of
  \<open>handleLocation\<close> through \<open>navigateTo\<close>.
\<close>

definition redirectRank :: "string \<Rightarrow> localStorage \<Rightarrow> nat" where
  "redirectRank path ls =
     (case ls of
        None \<Rightarrow> if path = ''/admin-dashboard'' \<or> path = ''/visitor-dashboard'' then 1 else 0
      | Some u \<Rightarrow>
          if path = ''/login'' \<or> path = ''/register'' then 3
          else if session_role u = ''visitor''
          then (if path = ''/admin-dashboard'' then 2
                else if path = ''/visitor-dashboard'' then 1 else 0)
          else (if path = ''/visitor-dashboard'' then 2
                else if path = ''/admin-dashboard'' then 1 else 0))"

text \<open>
  \<open>handleLocation\<close> for the pathname \<open>path\<close>, and \<open>navigateTo\<close>, which pushes the
  path and calls \<open>handleLocation\<close> again: the whole cycle, including the cycles it
  starts through \<open>navigateTo\<close>. When \<open>loadView\<close> throws, the rest of the cycle is
  not run.
\<close>

function handleLocation ::
    "(string \<Rightarrow> string fetch_result) \<Rightarrow> string \<Rightarrow> localStorage \<Rightarrow> effect list"
  and navigateTo ::
    "(string \<Rightarrow> string fetch_result) \<Rightarrow> string \<Rightarrow> localStorage \<Rightarrow> effect list" where
  "handleLocation fetchView path ls =
     Navbar (renderNavbar ls) # DashboardClass (updateBodyClass path) #
     (case resolveLocation path ls of
        Redirect q \<Rightarrow> navigateTo fetchView q ls
      | Render viewPath viewInitializer \<Rightarrow>
          (case loadView fetchView viewPath of
             (loaded, False) \<Rightarrow> loaded
           | (loaded, True) \<Rightarrow>
               loaded @
               (case viewInitializer of None \<Rightarrow> [] | Some init \<Rightarrow> [RunInitializer init]) @
               (if isAuthenticated ls then [AddLogoutButton] else [])))"
| "navigateTo fetchView path ls = PushState path # handleLocation fetchView path ls"
  by pat_completeness auto
termination
proof (relation "measure (\<lambda>call. case call of
          Inl (fetchView, path, ls) \<Rightarrow> 2 * redirectRank path ls
        | Inr (fetchView, path, ls) \<Rightarrow> 2 * redirectRank path ls + 1)")
  show "wf (measure (\<lambda>call. case call of
          Inl (fetchView, path, ls) \<Rightarrow> 2 * redirectRank path ls
        | Inr (fetchView, path, ls) \<Rightarrow> 2 * redirectRank path ls + 1))"
    by simp
next
  fix fetchView :: "string \<Rightarrow> string fetch_result" and path q :: string and ls :: localStorage
  assume "resolveLocation path ls = Redirect q"
  then have "redirectRank q ls < redirectRank path ls"
    by (cases ls)
       (auto simp: resolveLocation_def redirectRank_def isAuthenticated_def getCurrentUser_def
          userRole_def Let_def split: if_splits)
  then show "(Inr (fetchView, q, ls), Inl (fetchView, path, ls))
      \<in> measure (\<lambda>call. case call of
          Inl (fetchView, path, ls) \<Rightarrow> 2 * redirectRank path ls
        | Inr (fetchView, path, ls) \<Rightarrow> 2 * redirectRank path ls + 1)"
    by simp
next
  fix fetchView :: "string \<Rightarrow> string fetch_result" and path :: string and ls :: localStorage
  show "(Inl (fetchView, path, ls), Inr (fetchView, path, ls))
      \<in> measure (\<lambda>call. case call of
          Inl (fetchView, path, ls) \<Rightarrow> 2 * redirectRank path ls
        | Inr (fetchView, path, ls) \<Rightarrow> 2 * redirectRank path ls + 1)"
    by simp
qed

declare handleLocation.simps [simp del]

section \<open>controllers/authController.js\<close>

text \<open>
  \<open>handleLogin\<close>. The parameter \<open>fetchUsers email password\<close> is the outcome of the
  request \<open>GET /users?email=...&password=...\<close>; the body is \<open>None\<close> when
  \<open>response.json()\<close> rejects, and the array of users otherwise. The result is the
  boolean returned together with localStorage as the call leaves it.
\<close>

definition handleLogin ::
    "(string \<Rightarrow> string \<Rightarrow> user list option fetch_result) \<Rightarrow> string \<Rightarrow> string \<Rightarrow>
     localStorage \<Rightarrow> bool \<times> localStorage" where
  "handleLogin fetchUsers email password ls =
     (case fetchUsers email password of
        NetworkError \<Rightarrow> (False, ls)
      | Response ok body \<Rightarrow>
          if \<not> ok then (False, ls)
          else (case body of
                  None \<Rightarrow> (False, ls)
                | Some users \<Rightarrow>
                    if length users = 1 then (True, saveUserInfo (hd users) ls)
                    else (False, ls)))"

text \<open>
  Modelled from the spec: the remote store's \<open>/users\<close> resource is not part of the
  repository. \<open>list(filters)\<close> returns the records that match every filter exactly,
  in the store's order.
\<close>

definition usersResource :: "user list \<Rightarrow> string \<Rightarrow> string \<Rightarrow> user list option fetch_result" where
  "usersResource db email password =
     Response True (Some (filter (\<lambda>u. user_email u = email \<and> user_password u = password) db))"

section \<open>models/event.js and controllers/eventController.js\<close>

text \<open>
  An event as the store holds it under its id. The id is the key of the record in the
  store and is not repeated as a field: the controller addresses events by the
  \<open>eventId\<close> it is called with and never reads \<open>event.id\<close>.
\<close>

record event =
  title :: string
  description :: string
  location :: string
  date :: string
  capacity :: int
  attendees :: "json_id list"

text \<open>
  The constructor of the \<open>Event\<close> class, for a capacity given as an integer number
  (\<open>parseInt(n, 10)\<close> is \<open>n\<close> for such a number).
\<close>

definition Event :: "string \<Rightarrow> string \<Rightarrow> string \<Rightarrow> string \<Rightarrow> int \<Rightarrow> event" where
  "Event t d l dt c =
     \<lparr>title = t, description = d, location = l, date = dt, capacity = c, attendees = []\<rparr>"

text \<open>The JSON body of a PATCH: the fields it carries.\<close>

record event_patch =
  patch_title :: "string option"
  patch_description :: "string option"
  patch_location :: "string option"
  patch_date :: "string option"
  patch_capacity :: "int option"
  patch_attendees :: "json_id list option"

text \<open>The body \<open>JSON.stringify({ attendees: newAttendees })\<close>.\<close>

definition attendeesBody :: "json_id list \<Rightarrow> event_patch" where
  "attendeesBody newAttendees =
     \<lparr>patch_title = None, patch_description = None, patch_location = None,
      patch_date = None, patch_capacity = None, patch_attendees = Some newAttendees\<rparr>"

text \<open>The requests the enrolment functions send to \<open>EVENTS_API_URL/eventId\<close>.\<close>

datatype request = GET json_id | PATCH json_id event_patch

text \<open>What the controller does that can be observed: requests and \<open>alert\<close> boxes.\<close>

datatype io = Request request | Alert string

text \<open>
  The events endpoint is a parameter: a function from a request and the state of the
  store to the outcome of the fetch and the new state. A body that parses is an event
  object; the body is \<open>None\<close> when \<open>response.json()\<close> rejects (for the read also
  when the object has no array of attendees, where \<open>event.attendees.length\<close> throws
  inside the same \<open>try\<close>).
\<close>

type_synonym 's backend = "request \<Rightarrow> 's \<Rightarrow> event option fetch_result \<times> 's"

definition send :: "'s backend \<Rightarrow> request \<Rightarrow> 's \<times> io list \<Rightarrow> event option fetch_result \<times> ('s \<times> io list)" where
  "send fetch req w =
     (case fetch req (fst w) of (r, s') \<Rightarrow> (r, (s', snd w @ [Request req])))"

definition alert :: "string \<Rightarrow> 's \<times> io list \<Rightarrow> 's \<times> io list" where
  "alert msg w = (fst w, snd w @ [Alert msg])"

text \<open>
  \<open>if (!response.ok) throw ...; return await response.json()\<close> inside the
  \<open>try\<close> whose \<open>catch\<close> returns \<open>null\<close>.
\<close>

definition okJson :: "event option fetch_result \<Rightarrow> event option" where
  "okJson r = (case r of NetworkError \<Rightarrow> None | Response ok body \<Rightarrow> if ok then body else None)"

definition registerForEvent ::
    "'s backend \<Rightarrow> localStorage \<Rightarrow> json_id \<Rightarrow> 's \<times> io list \<Rightarrow> event option \<times> ('s \<times> io list)" where
  "registerForEvent fetch ls eventId w =
     (case getCurrentUser ls of
        None \<Rightarrow> (None, w)
      | Some currentUser \<Rightarrow>
          (case send fetch (GET eventId) w of (eventResponse, w1) \<Rightarrow>
             (case okJson eventResponse of
                None \<Rightarrow> (None, w1)
              | Some event \<Rightarrow>
                  if int (length (attendees event)) \<ge> capacity event
                  then (None, alert ''This event is full.'' w1)
                  else if session_id currentUser \<in> set (attendees event)
                  then (None, alert ''You are already registered for this event.'' w1)
                  else
                    (let newAttendees = attendees event @ [session_id currentUser] in
                     case send fetch (PATCH eventId (attendeesBody newAttendees)) w1 of
                       (response, w2) \<Rightarrow> (okJson response, w2)))))"

definition unregisterFromEvent ::
    "'s backend \<Rightarrow> localStorage \<Rightarrow> json_id \<Rightarrow> 's \<times> io list \<Rightarrow> event option \<times> ('s \<times> io list)" where
  "unregisterFromEvent fetch ls eventId w =
     (case getCurrentUser ls of
        None \<Rightarrow> (None, w)
      | Some currentUser \<Rightarrow>
          (case send fetch (GET eventId) w of (eventResponse, w1) \<Rightarrow>
             (case okJson eventResponse of
                None \<Rightarrow> (None, w1)
              | Some event \<Rightarrow>
                  (let newAttendees = filter (\<lambda>i. i \<noteq> session_id currentUser) (attendees event) in
                   case send fetch (PATCH eventId (attendeesBody newAttendees)) w1 of
                     (response, w2) \<Rightarrow> (okJson response, w2)))))"

text \<open>
  Modelled from the spec: the remote store's \<open>/events\<close> resource is not part of the
  repository. Reading an event returns the stored record; \<open>patch(id, partialRecord)\<close>
  merges only the provided fields and returns the updated record; an unknown id is a
  non-success status. The store never rejects a list of attendees longer than the
  capacity.
\<close>

definition mergePatch :: "event_patch \<Rightarrow> event \<Rightarrow> event" where
  "mergePatch p e =
     \<lparr>title = (case patch_title p of None \<Rightarrow> title e | Some v \<Rightarrow> v),
      description = (case patch_description p of None \<Rightarrow> description e | Some v \<Rightarrow> v),
      location = (case patch_location p of None \<Rightarrow> location e | Some v \<Rightarrow> v),
      date = (case patch_date p of None \<Rightarrow> date e | Some v \<Rightarrow> v),
      capacity = (case patch_capacity p of None \<Rightarrow> capacity e | Some v \<Rightarrow> v),
      attendees = (case patch_attendees p of None \<Rightarrow> attendees e | Some v \<Rightarrow> v)\<rparr>"

text \<open>
  Modelled from the spec: the two requests of the enrolment functions as the remote
  store answers them, on a store that maps the id of an event to its record.
\<close>

definition eventsResource :: "(json_id \<Rightarrow> event option) backend" where
  "eventsResource req db =
     (case req of
        GET i \<Rightarrow>
          (case db i of
             None \<Rightarrow> (Response False None, db)
           | Some e \<Rightarrow> (Response True (Some e), db))
      | PATCH i p \<Rightarrow>
          (case db i of
             None \<Rightarrow> (Response False None, db)
           | Some e \<Rightarrow> (Response True (Some (mergePatch p e)), db(i \<mapsto> mergePatch p e))))"

text \<open>
  Sequential enrolment: the sessions of \<open>users\<close>, one after the other, each call
  \<open>registerForEvent\<close> for the same event, the next call starting when the previous
  one has returned. The results are collected in order.
\<close>

fun enrollSequentially ::
    "'s backend \<Rightarrow> session list \<Rightarrow> json_id \<Rightarrow> 's \<times> io list \<Rightarrow> event option list \<times> ('s \<times> io list)" where
  "enrollSequentially fetch [] eventId w = ([], w)"
| "enrollSequentially fetch (u # us) eventId w =
     (case registerForEvent fetch (Some u) eventId w of (r, w1) \<Rightarrow>
        (case enrollSequentially fetch us eventId w1 of (rs, w2) \<Rightarrow> (r # rs, w2)))"

section \<open>Vocabulary of the properties\<close>

text \<open>
  The effects that show a protected view: a request for the markup of one of the two
  dashboards, or a run of one of the two dashboard initializers.
\<close>

fun protectedView :: "effect \<Rightarrow> bool" where
  "protectedView (Fetch url) =
     (Some url = routes ''/admin-dashboard'' \<or> Some url = routes ''/visitor-dashboard'')"
| "protectedView (RunInitializer (initializeAdminDashboard u)) = True"
| "protectedView (RunInitializer (initializeVisitorDashboard u)) = True"
| "protectedView e = False"

text \<open>Concrete data for the examples: an event of capacity 2 and visitor sessions.\<close>

definition demoEvent :: event where
  "demoEvent = Event ''Launch'' ''Product launch'' ''Hall A'' ''2025-09-01'' 2"

definition demoSession :: "int \<Rightarrow> session" where
  "demoSession n =
     \<lparr>session_id = IdNum n, session_email = ''visitor@test.com'', session_role = ''visitor''\<rparr>"

definition demoAdmin :: session where
  "demoAdmin =
     \<lparr>session_id = IdNum 1, session_email = ''admin@events.com'',
      session_role = ''administrator''\<rparr>"

text \<open>A session whose role is neither \<open>administrator\<close> nor \<open>visitor\<close>.\<close>

definition demoGuest :: session where
  "demoGuest =
     \<lparr>session_id = IdNum 9, session_email = ''guest@test.com'', session_role = ''guest''\<rparr>"

text \<open>The two users the README lists for testing.\<close>

definition demoUsers :: "user list" where
  "demoUsers =
     [\<lparr>user_id = IdNum 1, user_email = ''admin@events.com'', user_password = ''admin123'',
       user_role = ''administrator''\<rparr>,
      \<lparr>user_id = IdNum 2, user_email = ''visitor1@test.com'', user_password = ''visitor123'',
       user_role = ''visitor''\<rparr>]"

section \<open>The router: guards and resolution\<close>

lemmas router_defs =
  resolveLocation_def isAuthenticated_def getCurrentUser_def userRole_def routes_def Let_def

lemma handleLocation_redirect:
  "resolveLocation path ls = Redirect q \<Longrightarrow>
   handleLocation fetchView path ls =
     Navbar (renderNavbar ls) # DashboardClass (updateBodyClass path) #
     navigateTo fetchView q ls"
  by (subst handleLocation.simps) simp

lemma handleLocation_render:
  "resolveLocation path ls = Render v i \<Longrightarrow>
   handleLocation fetchView path ls =
     Navbar (renderNavbar ls) # DashboardClass (updateBodyClass path) #
     (case loadView fetchView v of
        (loaded, False) \<Rightarrow> loaded
      | (loaded, True) \<Rightarrow>
          loaded @ (case i of None \<Rightarrow> [] | Some init \<Rightarrow> [RunInitializer init]) @
          (if isAuthenticated ls then [AddLogoutButton] else []))"
  by (subst handleLocation.simps) simp

lemma loadView_effects:
  "e \<in> set (fst (loadView fetchView v)) \<Longrightarrow>
   e = Fetch (viewUrl v) \<or> e = Fetch notFoundUrl \<or> (\<exists>html. e = AppRoot html)"
  by (auto simp: loadView_def split: fetch_result.splits bool.splits if_splits)

text \<open>Everything a cycle that reaches the rendering part can do.\<close>

lemma render_effects:
  assumes "resolveLocation path ls = Render v i"
    and "e \<in> set (handleLocation fetchView path ls)"
  shows "e = Navbar (renderNavbar ls) \<or> e = DashboardClass (updateBodyClass path) \<or>
         e = Fetch (viewUrl v) \<or> e = Fetch notFoundUrl \<or> (\<exists>html. e = AppRoot html) \<or>
         (\<exists>init. i = Some init \<and> e = RunInitializer init) \<or> e = AddLogoutButton"
proof -
  obtain loaded b where l: "loadView fetchView v = (loaded, b)"
    by (cases "loadView fetchView v")
  have le: "x \<in> set loaded \<Longrightarrow>
      x = Fetch (viewUrl v) \<or> x = Fetch notFoundUrl \<or> (\<exists>html. x = AppRoot html)" for x
    using loadView_effects [of x fetchView v] by (simp add: l)
  from assms(2) have "e = Navbar (renderNavbar ls) \<or> e = DashboardClass (updateBodyClass path) \<or>
      e \<in> set loaded \<or> (\<exists>init. i = Some init \<and> e = RunInitializer init) \<or> e = AddLogoutButton"
    by (cases b; cases i) (auto simp: handleLocation_render [OF assms(1)] l split: if_splits)
  with le show ?thesis by blast
qed

subsection \<open>Without a session\<close>

lemma resolve_unauth:
  "resolveLocation path None =
     (if path = ''/admin-dashboard'' \<or> path = ''/visitor-dashboard'' then Redirect ''/login''
      else if path = ''/'' \<or> path = ''/home'' then Render (Some ''src/views/home.html'') None
      else if path = ''/login''
      then Render (Some ''src/views/login.html'') (Some initializeLoginForm)
      else if path = ''/register''
      then Render (Some ''src/views/register.html'') (Some initializeRegisterForm)
      else Render (Some ''src/views/404.html'') None)"
  by (simp add: router_defs)

lemma unauth_targets:
  assumes "resolveLocation path None = Render v i"
  shows "(v = Some ''src/views/home.html'' \<or> v = Some ''src/views/login.html'' \<or>
          v = Some ''src/views/register.html'' \<or> v = Some ''src/views/404.html'') \<and>
         (i = None \<or> i = Some initializeLoginForm \<or> i = Some initializeRegisterForm)"
  using assms unfolding resolve_unauth by (simp split: if_splits)

lemma render_unauth_safe:
  assumes "resolveLocation path None = Render v i"
  shows "\<not> list_ex protectedView (handleLocation fetchView path None)"
proof -
  have "\<not> protectedView e" if "e \<in> set (handleLocation fetchView path None)" for e
  proof -
    from unauth_targets [OF assms] have "\<not> protectedView (Fetch (viewUrl v))"
      by (auto simp: viewUrl_def routes_def)
    moreover have "\<not> protectedView (Fetch notFoundUrl)"
      by (simp add: notFoundUrl_def viewUrl_def routes_def)
    moreover from unauth_targets [OF assms]
    have "\<not> protectedView (RunInitializer init)" if "i = Some init" for init
      using that by auto
    ultimately show ?thesis
      using render_effects [OF assms that] by auto
  qed
  then show ?thesis by (auto simp: list_ex_iff)
qed

lemma unauth_safe: "\<not> list_ex protectedView (handleLocation fetchView path None)"
proof (cases "resolveLocation path None")
  case (Redirect q)
  then have q: "q = ''/login''"
    by (simp add: resolve_unauth split: if_splits)
  have "resolveLocation ''/login'' None =
      Render (Some ''src/views/login.html'') (Some initializeLoginForm)"
    by (simp add: resolve_unauth)
  then have "\<not> list_ex protectedView (handleLocation fetchView ''/login'' None)"
    by (rule render_unauth_safe)
  with Redirect q show ?thesis
    by (simp add: handleLocation_redirect)
next
  case (Render v i)
  then show ?thesis by (rule render_unauth_safe)
qed

text \<open>
  C1. Without a session, a navigation to \<open>/admin-dashboard\<close> or
  \<open>/visitor-dashboard\<close> is answered by the first guard: the cycle pushes \<open>/login\<close>,
  starts the cycle for \<open>/login\<close> and does nothing else. Whatever the path
  (\<open>anyPath\<close>), a cycle without a session, followed through its redirects, never
  requests the markup of a dashboard and never runs a dashboard initializer.
\<close>

theorem handleLocation_unauthenticated_protected:
  assumes "\<not> isAuthenticated ls"
    and "path = ''/admin-dashboard'' \<or> path = ''/visitor-dashboard''"
  shows "resolveLocation path ls = Redirect ''/login'' \<and>
         handleLocation fetchView path ls =
           Navbar (renderNavbar ls) # DashboardClass True #
           navigateTo fetchView ''/login'' ls \<and>
         \<not> list_ex protectedView (handleLocation fetchView anyPath ls)"
proof -
  from assms(1) have ls: "ls = None"
    by (simp add: isAuthenticated_def)
  from assms(2) have r: "resolveLocation path None = Redirect ''/login''"
    by (auto simp: resolve_unauth)
  from assms(2) have c: "updateBodyClass path"
    by (simp add: updateBodyClass_def)
  show ?thesis
    using r c by (simp add: ls handleLocation_redirect unauth_safe)
qed

theorem handleLocation_unauthenticated_protected_witness:
  "\<not> isAuthenticated None \<and>
   resolveLocation ''/admin-dashboard'' None = Redirect ''/login'' \<and>
   handleLocation (\<lambda>url. Response True url) ''/admin-dashboard'' None =
     [Navbar [NavHome, NavLogin, NavRegister], DashboardClass True, PushState ''/login'',
      Navbar [NavHome, NavLogin, NavRegister], DashboardClass False,
      Fetch ''src/views/login.html'', AppRoot ''src/views/login.html'',
      RunInitializer initializeLoginForm] \<and>
   \<not> list_ex protectedView
       (handleLocation (\<lambda>url. Response True url) ''/visitor-dashboard'' None)"
proof -
  have a: "\<not> isAuthenticated None"
    by (simp add: isAuthenticated_def)
  have l: "handleLocation (\<lambda>url. Response True url) ''/login'' None =
     [Navbar [NavHome, NavLogin, NavRegister], DashboardClass False,
      Fetch ''src/views/login.html'', AppRoot ''src/views/login.html'',
      RunInitializer initializeLoginForm]"
    by (simp add: handleLocation_render
          [where v = "Some ''src/views/login.html''" and i = "Some initializeLoginForm"]
          resolve_unauth loadView_def viewUrl_def renderNavbar_def userRole_def getCurrentUser_def
          isAuthenticated_def Let_def
          updateBodyClass_def isAuthenticated_def)
  from handleLocation_unauthenticated_protected
         [OF a, of "''/admin-dashboard''" "\<lambda>url. Response True url" "''/visitor-dashboard''"]
  show ?thesis
    using a l by (simp add: renderNavbar_def userRole_def getCurrentUser_def
          isAuthenticated_def Let_def)
qed

subsection \<open>With a session\<close>

lemma resolve_auth:
  "resolveLocation path (Some u) =
     (if path = ''/login'' \<or> path = ''/register''
      then Redirect (if session_role u = ''administrator''
                     then ''/admin-dashboard'' else ''/visitor-dashboard'')
      else if path = ''/'' \<or> path = ''/home'' then Render (Some ''src/views/home.html'') None
      else if path = ''/admin-dashboard'' then
        (if session_role u = ''administrator''
         then Render (Some ''src/views/admin-dashboard.html'') (Some (initializeAdminDashboard u))
         else if session_role u = ''visitor'' then Redirect ''/visitor-dashboard''
         else Render None None)
      else if path = ''/visitor-dashboard'' then
        (if session_role u = ''visitor''
         then Render (Some ''src/views/visitor-dashboard.html'') (Some (initializeVisitorDashboard u))
         else Redirect ''/admin-dashboard'')
      else Render (Some ''src/views/404.html'') None)"
  by (simp add: router_defs)

lemma pushes_of_render:
  assumes "resolveLocation path ls = Render v i"
  shows "PushState q \<notin> set (handleLocation fetchView path ls)"
  using render_effects [OF assms, of "PushState q" fetchView] by auto

text \<open>
  C2. With a session whose role is \<open>administrator\<close> or \<open>visitor\<close>, a navigation to
  \<open>/login\<close> or \<open>/register\<close> is answered by the second guard: the cycle pushes the
  dashboard of the session's role and starts the cycle for it, which resolves to that
  dashboard's view; the other role's dashboard is never pushed in the whole cycle.
\<close>

theorem guest_only_redirects_to_own_dashboard:
  assumes "getCurrentUser ls = Some u"
    and "session_role u = ''administrator'' \<or> session_role u = ''visitor''"
    and "path = ''/login'' \<or> path = ''/register''"
  shows "isAuthenticated ls \<and>
         (session_role u = ''administrator'' \<longrightarrow>
            resolveLocation path ls = Redirect ''/admin-dashboard'' \<and>
            handleLocation fetchView path ls =
              Navbar (renderNavbar ls) # DashboardClass False #
              navigateTo fetchView ''/admin-dashboard'' ls \<and>
            resolveLocation ''/admin-dashboard'' ls =
              Render (routes ''/admin-dashboard'') (Some (initializeAdminDashboard u)) \<and>
            PushState ''/visitor-dashboard'' \<notin> set (handleLocation fetchView path ls)) \<and>
         (session_role u = ''visitor'' \<longrightarrow>
            resolveLocation path ls = Redirect ''/visitor-dashboard'' \<and>
            handleLocation fetchView path ls =
              Navbar (renderNavbar ls) # DashboardClass False #
              navigateTo fetchView ''/visitor-dashboard'' ls \<and>
            resolveLocation ''/visitor-dashboard'' ls =
              Render (routes ''/visitor-dashboard'') (Some (initializeVisitorDashboard u)) \<and>
            PushState ''/admin-dashboard'' \<notin> set (handleLocation fetchView path ls))"
proof -
  from assms(1) have ls: "ls = Some u"
    by (simp add: getCurrentUser_def)
  from assms(3) have b: "updateBodyClass path = False"
    by (auto simp: updateBodyClass_def)
  have auth: "isAuthenticated (Some u)"
    by (simp add: isAuthenticated_def)
  have admin: "resolveLocation path (Some u) = Redirect ''/admin-dashboard'' \<and>
            handleLocation fetchView path (Some u) =
              Navbar (renderNavbar (Some u)) # DashboardClass False #
              navigateTo fetchView ''/admin-dashboard'' (Some u) \<and>
            resolveLocation ''/admin-dashboard'' (Some u) =
              Render (routes ''/admin-dashboard'') (Some (initializeAdminDashboard u)) \<and>
            PushState ''/visitor-dashboard'' \<notin> set (handleLocation fetchView path (Some u))"
    if r: "session_role u = ''administrator''"
  proof -
    from r assms(3) have red: "resolveLocation path (Some u) = Redirect ''/admin-dashboard''"
      by (auto simp: resolve_auth)
    from r have ren: "resolveLocation ''/admin-dashboard'' (Some u) =
        Render (routes ''/admin-dashboard'') (Some (initializeAdminDashboard u))"
      by (simp add: resolve_auth routes_def)
    have "PushState ''/visitor-dashboard'' \<notin>
        set (handleLocation fetchView ''/admin-dashboard'' (Some u))"
      using ren by (rule pushes_of_render)
    with red ren show ?thesis
      by (simp add: handleLocation_redirect [OF red] b)
  qed
  have visitor: "resolveLocation path (Some u) = Redirect ''/visitor-dashboard'' \<and>
            handleLocation fetchView path (Some u) =
              Navbar (renderNavbar (Some u)) # DashboardClass False #
              navigateTo fetchView ''/visitor-dashboard'' (Some u) \<and>
            resolveLocation ''/visitor-dashboard'' (Some u) =
              Render (routes ''/visitor-dashboard'') (Some (initializeVisitorDashboard u)) \<and>
            PushState ''/admin-dashboard'' \<notin> set (handleLocation fetchView path (Some u))"
    if r: "session_role u = ''visitor''"
  proof -
    from r assms(3) have red: "resolveLocation path (Some u) = Redirect ''/visitor-dashboard''"
      by (auto simp: resolve_auth)
    from r have ren: "resolveLocation ''/visitor-dashboard'' (Some u) =
        Render (routes ''/visitor-dashboard'') (Some (initializeVisitorDashboard u))"
      by (simp add: resolve_auth routes_def)
    have "PushState ''/admin-dashboard'' \<notin>
        set (handleLocation fetchView ''/visitor-dashboard'' (Some u))"
      using ren by (rule pushes_of_render)
    with red ren show ?thesis
      by (simp add: handleLocation_redirect [OF red] b)
  qed
  from auth admin visitor show ?thesis
    unfolding ls by blast
qed

theorem guest_only_redirects_to_own_dashboard_witness:
  "resolveLocation ''/login'' (Some demoAdmin) = Redirect ''/admin-dashboard'' \<and>
   handleLocation (\<lambda>url. Response True url) ''/login'' (Some demoAdmin) =
     [Navbar [NavHome, NavEventManagement], DashboardClass False, PushState ''/admin-dashboard'',
      Navbar [NavHome, NavEventManagement], DashboardClass True,
      Fetch ''src/views/admin-dashboard.html'', AppRoot ''src/views/admin-dashboard.html'',
      RunInitializer (initializeAdminDashboard demoAdmin), AddLogoutButton] \<and>
   PushState ''/visitor-dashboard'' \<notin>
     set (handleLocation (\<lambda>url. Response True url) ''/login'' (Some demoAdmin)) \<and>
   resolveLocation ''/register'' (Some (demoSession 2)) = Redirect ''/visitor-dashboard'' \<and>
   PushState ''/admin-dashboard'' \<notin>
     set (handleLocation (\<lambda>url. NetworkError) ''/register'' (Some (demoSession 2)))"
proof -
  have a: "getCurrentUser (Some demoAdmin) = Some demoAdmin"
    and v: "getCurrentUser (Some (demoSession 2)) = Some (demoSession 2)"
    by (simp_all add: getCurrentUser_def)
  have ra: "session_role demoAdmin = ''administrator'' \<or> session_role demoAdmin = ''visitor''"
    and rv: "session_role (demoSession 2) = ''administrator'' \<or> session_role (demoSession 2) = ''visitor''"
    by (simp_all add: demoAdmin_def demoSession_def)
  have d: "handleLocation (\<lambda>url. Response True url) ''/admin-dashboard'' (Some demoAdmin) =
     [Navbar [NavHome, NavEventManagement], DashboardClass True,
      Fetch ''src/views/admin-dashboard.html'', AppRoot ''src/views/admin-dashboard.html'',
      RunInitializer (initializeAdminDashboard demoAdmin), AddLogoutButton]"
    by (simp add: handleLocation_render
          [where v = "Some ''src/views/admin-dashboard.html''"
             and i = "Some (initializeAdminDashboard demoAdmin)"]
          resolve_auth loadView_def viewUrl_def renderNavbar_def userRole_def getCurrentUser_def
          isAuthenticated_def Let_def
          updateBodyClass_def isAuthenticated_def demoAdmin_def)
  have sa: "session_role demoAdmin = ''administrator''"
    and sv: "session_role (demoSession 2) = ''visitor''"
    by (simp_all add: demoAdmin_def demoSession_def)
  note A = guest_only_redirects_to_own_dashboard
             [OF a ra, of "''/login''" "\<lambda>url. Response True url"]
  note V = guest_only_redirects_to_own_dashboard
             [OF v rv, of "''/register''" "\<lambda>url. NetworkError"]
  from A sa have A1: "resolveLocation ''/login'' (Some demoAdmin) = Redirect ''/admin-dashboard''"
    and A2: "handleLocation (\<lambda>url. Response True url) ''/login'' (Some demoAdmin) =
        Navbar (renderNavbar (Some demoAdmin)) # DashboardClass False #
        navigateTo (\<lambda>url. Response True url) ''/admin-dashboard'' (Some demoAdmin)"
    and A3: "PushState ''/visitor-dashboard'' \<notin>
        set (handleLocation (\<lambda>url. Response True url) ''/login'' (Some demoAdmin))"
    by blast+
  from V sv have V1: "resolveLocation ''/register'' (Some (demoSession 2)) =
        Redirect ''/visitor-dashboard''"
    and V3: "PushState ''/admin-dashboard'' \<notin>
        set (handleLocation (\<lambda>url. NetworkError) ''/register'' (Some (demoSession 2)))"
    by blast+
  have n: "renderNavbar (Some demoAdmin) = [NavHome, NavEventManagement]"
    by (simp add: renderNavbar_def userRole_def getCurrentUser_def
          isAuthenticated_def Let_def demoAdmin_def)
  from A1 A3 V1 V3 show ?thesis
    by (simp add: A2 d n)
qed

lemma auth_cycle_never_pushes_login:
  shows "ls \<noteq> None \<Longrightarrow> PushState ''/login'' \<notin> set (handleLocation fetchView path ls)"
    and "ls \<noteq> None \<Longrightarrow> path \<noteq> ''/login'' \<Longrightarrow>
         PushState ''/login'' \<notin> set (navigateTo fetchView path ls)"
proof (induction fetchView path ls and fetchView path ls rule: handleLocation_navigateTo.induct)
  case (1 fetchView path ls)
  from "1.prems" obtain u where ls: "ls = Some u"
    by auto
  show ?case
  proof (cases "resolveLocation path ls")
    case (Redirect q)
    then have "q \<noteq> ''/login''"
      by (auto simp: ls resolve_auth split: if_splits)
    with Redirect "1.prems" have "PushState ''/login'' \<notin> set (navigateTo fetchView q ls)"
      by (rule "1.IH")
    then show ?thesis
      by (simp add: handleLocation_redirect [OF Redirect] del: navigateTo.simps)
  next
    case (Render v i)
    then show ?thesis by (rule pushes_of_render)
  qed
next
  case (2 fetchView path ls)
  then show ?case by simp
qed

lemma auth_never_pushes_login:
  "PushState ''/login'' \<notin> set (handleLocation fetchView path (Some u))"
  by (rule auth_cycle_never_pushes_login) simp

text \<open>
  C7, as stated, fails for a session whose role is neither \<open>administrator\<close> nor
  \<open>visitor\<close>: on \<open>/visitor-dashboard\<close> it is sent to \<open>/admin-dashboard\<close>, not to
  \<open>/login\<close>, and on \<open>/admin-dashboard\<close> no redirect happens at all.
\<close>

theorem inconsistent_session_is_not_sent_to_login:
  "isAuthenticated (Some demoGuest) \<and>
   session_role demoGuest \<noteq> ''administrator'' \<and> session_role demoGuest \<noteq> ''visitor'' \<and>
   resolveLocation ''/visitor-dashboard'' (Some demoGuest) = Redirect ''/admin-dashboard'' \<and>
   resolveLocation ''/visitor-dashboard'' (Some demoGuest) \<noteq> Redirect ''/login'' \<and>
   resolveLocation ''/admin-dashboard'' (Some demoGuest) = Render None None \<and>
   handleLocation (\<lambda>url. Response True url) ''/visitor-dashboard'' (Some demoGuest) =
     [Navbar [NavHome], DashboardClass True, PushState ''/admin-dashboard'',
      Navbar [NavHome], DashboardClass True, Fetch ''undefined'', AppRoot ''undefined'',
      AddLogoutButton]"
proof -
  have v: "resolveLocation ''/visitor-dashboard'' (Some demoGuest) = Redirect ''/admin-dashboard''"
    and a: "resolveLocation ''/admin-dashboard'' (Some demoGuest) = Render None None"
    by (simp_all add: resolve_auth demoGuest_def)
  have n: "renderNavbar (Some demoGuest) = [NavHome]"
    by (simp add: renderNavbar_def userRole_def getCurrentUser_def isAuthenticated_def
          Let_def demoGuest_def)
  have "handleLocation (\<lambda>url. Response True url) ''/visitor-dashboard'' (Some demoGuest) =
     [Navbar [NavHome], DashboardClass True, PushState ''/admin-dashboard'',
      Navbar [NavHome], DashboardClass True, Fetch ''undefined'', AppRoot ''undefined'',
      AddLogoutButton]"
    by (simp add: handleLocation_redirect [OF v] handleLocation_render [OF a] n loadView_def
          viewUrl_def updateBodyClass_def isAuthenticated_def)
  with v a show ?thesis
    by (simp add: isAuthenticated_def demoGuest_def)
qed

text \<open>
  C7, amended. With a session, a visitor on \<open>/admin-dashboard\<close> is redirected to
  \<open>/visitor-dashboard\<close> and an administrator on \<open>/visitor-dashboard\<close> to
  \<open>/admin-dashboard\<close>, the cycle stopping there and starting the cycle of the target.
  A session with any other role is redirected from \<open>/visitor-dashboard\<close> to
  \<open>/admin-dashboard\<close>. No path (\<open>anyPath\<close>) sends a session, whatever its role, to
  \<open>/login\<close>: neither the guards nor the whole cycle push it.
\<close>

theorem role_mismatched_dashboard_redirects:
  assumes "getCurrentUser ls = Some u"
  shows "(session_role u = ''visitor'' \<longrightarrow>
            resolveLocation ''/admin-dashboard'' ls = Redirect ''/visitor-dashboard'' \<and>
            handleLocation fetchView ''/admin-dashboard'' ls =
              Navbar (renderNavbar ls) # DashboardClass True #
              navigateTo fetchView ''/visitor-dashboard'' ls) \<and>
         (session_role u = ''administrator'' \<longrightarrow>
            resolveLocation ''/visitor-dashboard'' ls = Redirect ''/admin-dashboard'' \<and>
            handleLocation fetchView ''/visitor-dashboard'' ls =
              Navbar (renderNavbar ls) # DashboardClass True #
              navigateTo fetchView ''/admin-dashboard'' ls) \<and>
         (session_role u \<noteq> ''administrator'' \<and> session_role u \<noteq> ''visitor'' \<longrightarrow>
            resolveLocation ''/visitor-dashboard'' ls = Redirect ''/admin-dashboard'') \<and>
         resolveLocation anyPath ls \<noteq> Redirect ''/login'' \<and>
         PushState ''/login'' \<notin> set (handleLocation fetchView anyPath ls)"
proof -
  from assms have ls: "ls = Some u"
    by (simp add: getCurrentUser_def)
  have c: "updateBodyClass ''/admin-dashboard''" "updateBodyClass ''/visitor-dashboard''"
    by (simp_all add: updateBodyClass_def)
  have v: "resolveLocation ''/admin-dashboard'' (Some u) = Redirect ''/visitor-dashboard''"
    if "session_role u = ''visitor''"
    using that by (simp add: resolve_auth)
  have a: "resolveLocation ''/visitor-dashboard'' (Some u) = Redirect ''/admin-dashboard''"
    if "session_role u \<noteq> ''visitor''"
    using that by (simp add: resolve_auth)
  have n: "resolveLocation anyPath (Some u) \<noteq> Redirect ''/login''"
    by (simp add: resolve_auth)
  show ?thesis
    unfolding ls
    using n auth_never_pushes_login [of fetchView anyPath u]
    by (auto simp: v a c handleLocation_redirect [OF v] handleLocation_redirect [OF a])
qed

theorem role_mismatched_dashboard_redirects_witness:
  "resolveLocation ''/admin-dashboard'' (Some (demoSession 2)) = Redirect ''/visitor-dashboard'' \<and>
   resolveLocation ''/visitor-dashboard'' (Some demoAdmin) = Redirect ''/admin-dashboard'' \<and>
   resolveLocation ''/visitor-dashboard'' (Some demoGuest) = Redirect ''/admin-dashboard'' \<and>
   PushState ''/login'' \<notin>
     set (handleLocation (\<lambda>url. Response True url) ''/visitor-dashboard'' (Some demoGuest))"
proof -
  have g: "getCurrentUser (Some s) = Some s" for s
    by (simp add: getCurrentUser_def)
  have r: "session_role (demoSession 2) = ''visitor''"
    "session_role demoAdmin = ''administrator''"
    "session_role demoGuest \<noteq> ''administrator'' \<and> session_role demoGuest \<noteq> ''visitor''"
    by (simp_all add: demoSession_def demoAdmin_def demoGuest_def)
  from role_mismatched_dashboard_redirects [OF g, of "demoSession 2"] r(1)
  have 1: "resolveLocation ''/admin-dashboard'' (Some (demoSession 2)) =
      Redirect ''/visitor-dashboard''"
    by blast
  from role_mismatched_dashboard_redirects [OF g, of demoAdmin] r(2)
  have 2: "resolveLocation ''/visitor-dashboard'' (Some demoAdmin) = Redirect ''/admin-dashboard''"
    by blast
  from role_mismatched_dashboard_redirects
         [OF g, of demoGuest "\<lambda>url. Response True url" "''/visitor-dashboard''"] r(3)
  have 3: "resolveLocation ''/visitor-dashboard'' (Some demoGuest) = Redirect ''/admin-dashboard''"
    and 4: "PushState ''/login'' \<notin>
      set (handleLocation (\<lambda>url. Response True url) ''/visitor-dashboard'' (Some demoGuest))"
    by blast+
  from 1 2 3 4 show ?thesis by blast
qed

text \<open>
  C10. Whatever the session, \<open>/home\<close> resolves as \<open>/\<close> does: to the home view with no
  initializer, not to the not-found view; the two cycles are the same.
\<close>

theorem home_is_alias_of_root:
  "resolveLocation ''/home'' ls = Render (Some ''src/views/home.html'') None \<and>
   resolveLocation ''/home'' ls = resolveLocation ''/'' ls \<and>
   resolveLocation ''/home'' ls \<noteq> Render (routes ''/404'') None \<and>
   handleLocation fetchView ''/home'' ls = handleLocation fetchView ''/'' ls"
proof -
  have h: "resolveLocation ''/home'' ls = Render (Some ''src/views/home.html'') None"
    by (cases ls) (simp_all add: resolve_unauth resolve_auth)
  have r: "resolveLocation ''/'' ls = Render (Some ''src/views/home.html'') None"
    by (cases ls) (simp_all add: resolve_unauth resolve_auth)
  have c: "updateBodyClass ''/home'' = updateBodyClass ''/''"
    by (simp add: updateBodyClass_def)
  show ?thesis
    by (simp add: h r c handleLocation_render [OF h] handleLocation_render [OF r] routes_def)
qed

theorem home_is_alias_of_root_witness:
  "handleLocation (\<lambda>url. Response True url) ''/home'' (Some demoGuest) =
     [Navbar [NavHome], DashboardClass False, Fetch ''src/views/home.html'',
      AppRoot ''src/views/home.html'', AddLogoutButton] \<and>
   handleLocation (\<lambda>url. Response True url) ''/'' (Some demoGuest) =
     [Navbar [NavHome], DashboardClass False, Fetch ''src/views/home.html'',
      AppRoot ''src/views/home.html'', AddLogoutButton] \<and>
   resolveLocation ''/home'' None = Render (Some ''src/views/home.html'') None"
proof -
  note h = home_is_alias_of_root [of "Some demoGuest" "\<lambda>url. Response True url"]
  from h have r: "resolveLocation ''/home'' (Some demoGuest) =
      Render (Some ''src/views/home.html'') None"
    by blast
  have n: "renderNavbar (Some demoGuest) = [NavHome]"
    by (simp add: renderNavbar_def userRole_def getCurrentUser_def
          isAuthenticated_def Let_def demoGuest_def)
  have t: "handleLocation (\<lambda>url. Response True url) ''/home'' (Some demoGuest) =
     [Navbar [NavHome], DashboardClass False, Fetch ''src/views/home.html'',
      AppRoot ''src/views/home.html'', AddLogoutButton]"
    by (simp add: handleLocation_render [OF r] loadView_def viewUrl_def n
          updateBodyClass_def isAuthenticated_def)
  from h have e: "handleLocation (\<lambda>url. Response True url) ''/'' (Some demoGuest) =
      handleLocation (\<lambda>url. Response True url) ''/home'' (Some demoGuest)"
    by simp
  from home_is_alias_of_root [of None] have "resolveLocation ''/home'' None =
      Render (Some ''src/views/home.html'') None"
    by blast
  with t e show ?thesis by simp
qed

section \<open>Login\<close>

text \<open>
  C3. \<open>handleLogin\<close> returns \<open>true\<close> exactly when the request succeeds with an array
  of exactly one user, and then localStorage holds that user's id, email and role (the
  session record has no password field). With an array of any other length, a body
  that is not JSON, a non-success status or a rejected fetch it returns \<open>false\<close> and
  localStorage is as it was.
\<close>

theorem handleLogin_contract:
  "(fetchUsers email password = Response True (Some [user]) \<longrightarrow>
      handleLogin fetchUsers email password ls =
        (True, Some \<lparr>session_id = user_id user, session_email = user_email user,
                      session_role = user_role user\<rparr>)) \<and>
   (fetchUsers email password = Response True (Some users) \<and> length users \<noteq> 1 \<longrightarrow>
      handleLogin fetchUsers email password ls = (False, ls)) \<and>
   (fetchUsers email password = Response True None \<longrightarrow>
      handleLogin fetchUsers email password ls = (False, ls)) \<and>
   (fetchUsers email password = Response False body \<longrightarrow>
      handleLogin fetchUsers email password ls = (False, ls)) \<and>
   (fetchUsers email password = NetworkError \<longrightarrow>
      handleLogin fetchUsers email password ls = (False, ls)) \<and>
   (fst (handleLogin fetchUsers email password ls) \<longleftrightarrow>
      (\<exists>u. fetchUsers email password = Response True (Some [u])))"
proof -
  have one: "(length xs = Suc 0) = (\<exists>u. xs = [u])" for xs :: "user list"
    by (cases xs) auto
  show ?thesis
    by (auto simp: handleLogin_def saveUserInfo_def one
          split: fetch_result.splits option.splits)
qed

theorem handleLogin_contract_witness:
  "handleLogin (usersResource demoUsers) ''admin@events.com'' ''admin123'' None =
     (True, Some demoAdmin) \<and>
   handleLogin (usersResource demoUsers) ''admin@events.com'' ''admin124'' None = (False, None) \<and>
   handleLogin (usersResource (demoUsers @ demoUsers)) ''admin@events.com'' ''admin123''
     (Some demoGuest) = (False, Some demoGuest) \<and>
   handleLogin (\<lambda>e p. NetworkError) ''admin@events.com'' ''admin123'' None = (False, None) \<and>
   handleLogin (\<lambda>e p. Response False (Some demoUsers)) ''admin@events.com'' ''admin123'' None =
     (False, None)"
proof -
  have q1: "usersResource demoUsers ''admin@events.com'' ''admin123'' =
      Response True (Some [\<lparr>user_id = IdNum 1, user_email = ''admin@events.com'',
        user_password = ''admin123'', user_role = ''administrator''\<rparr>])"
    by (simp add: usersResource_def demoUsers_def)
  have q2: "usersResource demoUsers ''admin@events.com'' ''admin124'' = Response True (Some [])"
    by (simp add: usersResource_def demoUsers_def)
  have q3: "usersResource (demoUsers @ demoUsers) ''admin@events.com'' ''admin123'' =
      Response True (Some [hd demoUsers, hd demoUsers])"
    by (simp add: usersResource_def demoUsers_def)
  from handleLogin_contract [of "usersResource demoUsers" "''admin@events.com''" "''admin123''" _ None] q1
  have 1: "handleLogin (usersResource demoUsers) ''admin@events.com'' ''admin123'' None =
     (True, Some demoAdmin)"
    by (simp add: demoAdmin_def)
  from handleLogin_contract [of "usersResource demoUsers" "''admin@events.com''" "''admin124''" _ None "[]"] q2
  have 2: "handleLogin (usersResource demoUsers) ''admin@events.com'' ''admin124'' None = (False, None)"
    by simp
  from handleLogin_contract [of "usersResource (demoUsers @ demoUsers)" "''admin@events.com''"
      "''admin123''" _ "Some demoGuest" "[hd demoUsers, hd demoUsers]"] q3
  have 3: "handleLogin (usersResource (demoUsers @ demoUsers)) ''admin@events.com'' ''admin123''
     (Some demoGuest) = (False, Some demoGuest)"
    by simp
  from handleLogin_contract [of "\<lambda>e p. NetworkError" "''admin@events.com''" "''admin123''" _ None]
  have 4: "handleLogin (\<lambda>e p. NetworkError) ''admin@events.com'' ''admin123'' None = (False, None)"
    by simp
  from handleLogin_contract [of "\<lambda>e p. Response False (Some demoUsers)" "''admin@events.com''"
      "''admin123''" _ None _ "Some demoUsers"]
  have 5: "handleLogin (\<lambda>e p. Response False (Some demoUsers)) ''admin@events.com'' ''admin123'' None =
     (False, None)"
    by simp
  from 1 2 3 4 5 show ?thesis by simp
qed

section \<open>Enrolment\<close>

lemma mergePatch_attendeesBody:
  "mergePatch (attendeesBody xs) e = e\<lparr>attendees := xs\<rparr>"
  by (simp add: mergePatch_def attendeesBody_def)

lemma send_eventsResource_GET:
  "db i = Some e \<Longrightarrow>
   send eventsResource (GET i) (db, log) = (Response True (Some e), (db, log @ [Request (GET i)]))"
  by (simp add: send_def eventsResource_def)

lemma send_eventsResource_PATCH:
  "db i = Some e \<Longrightarrow>
   send eventsResource (PATCH i p) (db, log) =
     (Response True (Some (mergePatch p e)), (db(i \<mapsto> mergePatch p e), log @ [Request (PATCH i p)]))"
  by (simp add: send_def eventsResource_def)

lemma register_stored_success:
  assumes "db i = Some e"
    and "int (length (attendees e)) < capacity e"
    and "session_id u \<notin> set (attendees e)"
  shows "registerForEvent eventsResource (Some u) i (db, log) =
     (Some (e\<lparr>attendees := attendees e @ [session_id u]\<rparr>),
      (db(i \<mapsto> e\<lparr>attendees := attendees e @ [session_id u]\<rparr>),
       log @ [Request (GET i), Request (PATCH i (attendeesBody (attendees e @ [session_id u])))]))"
  using assms
  by (simp add: registerForEvent_def getCurrentUser_def send_eventsResource_GET
        send_eventsResource_PATCH okJson_def mergePatch_attendeesBody Let_def)

lemma register_stored_full:
  assumes "db i = Some e"
    and "capacity e \<le> int (length (attendees e))"
  shows "registerForEvent eventsResource (Some u) i (db, log) =
     (None, (db, log @ [Request (GET i), Alert ''This event is full.'']))"
  using assms
  by (simp add: registerForEvent_def getCurrentUser_def send_eventsResource_GET okJson_def alert_def)

lemma register_stored_already:
  assumes "db i = Some e"
    and "int (length (attendees e)) < capacity e"
    and "session_id u \<in> set (attendees e)"
  shows "registerForEvent eventsResource (Some u) i (db, log) =
     (None, (db, log @ [Request (GET i), Alert ''You are already registered for this event.'']))"
  using assms
  by (simp add: registerForEvent_def getCurrentUser_def send_eventsResource_GET okJson_def alert_def)

lemma register_preserves_bound:
  assumes "db i = Some e" and "int (length (attendees e)) \<le> capacity e"
  shows "\<exists>e1. fst (snd (registerForEvent eventsResource ls i (db, log))) i = Some e1 \<and>
           int (length (attendees e1)) \<le> capacity e1 \<and> capacity e1 = capacity e"
proof (cases ls)
  case None
  with assms show ?thesis
    by (simp add: registerForEvent_def getCurrentUser_def)
next
  case (Some u)
  consider (full) "capacity e \<le> int (length (attendees e))"
    | (already) "int (length (attendees e)) < capacity e" "session_id u \<in> set (attendees e)"
    | (free) "int (length (attendees e)) < capacity e" "session_id u \<notin> set (attendees e)"
    by linarith
  then show ?thesis
  proof cases
    case full
    with assms Some show ?thesis by (simp add: register_stored_full)
  next
    case already
    with assms Some show ?thesis by (simp add: register_stored_already)
  next
    case free
    with assms Some show ?thesis by (simp add: register_stored_success)
  qed
qed

lemma enroll_preserves_bound:
  assumes "db i = Some e" and "int (length (attendees e)) \<le> capacity e"
  shows "\<exists>e1. fst (snd (enrollSequentially eventsResource us i (db, log))) i = Some e1 \<and>
           int (length (attendees e1)) \<le> capacity e1 \<and> capacity e1 = capacity e"
  using assms
proof (induction us arbitrary: db log e)
  case Nil
  then show ?case by simp
next
  case (Cons u us)
  obtain r db1 log1 where r: "registerForEvent eventsResource (Some u) i (db, log) = (r, (db1, log1))"
    by (metis surj_pair)
  from register_preserves_bound [of db i e "Some u" log] Cons.prems r
  obtain e1 where e1: "db1 i = Some e1" "int (length (attendees e1)) \<le> capacity e1"
      "capacity e1 = capacity e"
    by auto
  from Cons.IH [of db1 e1 log1] e1 r show ?case
    by (auto split: prod.splits)
qed

lemma enroll_all_succeed:
  assumes "db i = Some e"
    and "int (length (attendees e) + length us) \<le> capacity e"
    and "distinct (map session_id us)"
    and "set (map session_id us) \<inter> set (attendees e) = {}"
  shows "\<exists>rs log'. enrollSequentially eventsResource us i (db, log) =
           (rs, (db(i \<mapsto> e\<lparr>attendees := attendees e @ map session_id us\<rparr>), log')) \<and>
           length rs = length us \<and> None \<notin> set rs"
  using assms
proof (induction us arbitrary: db log e)
  case Nil
  then show ?case by (simp add: map_upd_triv)
next
  case (Cons u us)
  let ?e1 = "e\<lparr>attendees := attendees e @ [session_id u]\<rparr>"
  let ?db1 = "db(i \<mapsto> ?e1)"
  from Cons.prems have free: "int (length (attendees e)) < capacity e" "session_id u \<notin> set (attendees e)"
    by auto
  from Cons.prems(1) free have step: "registerForEvent eventsResource (Some u) i (db, log) =
     (Some ?e1, (?db1, log @ [Request (GET i), Request (PATCH i (attendeesBody (attendees e @ [session_id u])))]))"
    by (rule register_stored_success)
  let ?log1 = "log @ [Request (GET i), Request (PATCH i (attendeesBody (attendees e @ [session_id u])))]"
  have "\<exists>rs log'. enrollSequentially eventsResource us i (?db1, ?log1) =
           (rs, (?db1(i \<mapsto> ?e1\<lparr>attendees := attendees ?e1 @ map session_id us\<rparr>), log')) \<and>
           length rs = length us \<and> None \<notin> set rs"
    using Cons.prems by (intro Cons.IH) auto
  then obtain rs log' where rest: "enrollSequentially eventsResource us i (?db1, ?log1) =
           (rs, (?db1(i \<mapsto> ?e1\<lparr>attendees := attendees ?e1 @ map session_id us\<rparr>), log'))"
      "length rs = length us" "None \<notin> set rs"
    by blast
  have "enrollSequentially eventsResource (u # us) i (db, log) =
      (Some ?e1 # rs, (db(i \<mapsto> e\<lparr>attendees := attendees e @ map session_id (u # us)\<rparr>), log'))"
    by (simp add: step rest)
  moreover have "length (Some ?e1 # rs) = length (u # us)" "None \<notin> set (Some ?e1 # rs)"
    using rest(2,3) by simp_all
  ultimately show ?case by blast
qed


text \<open>
  C4. When the event fetched has as many attendees as its capacity or more, or when
  the attendees fetched already contain the id of the current user, \<open>registerForEvent\<close>
  returns \<open>null\<close>; its only request is the read (followed by one alert), so no write
  is issued, and the store is left as the read left it. Against the events resource the
  stored event, attendees included, is unchanged.
\<close>

theorem registerForEvent_full_or_duplicate_fails:
  assumes "fetch (GET eventId) s = (Response True (Some e), s')"
    and "capacity e \<le> int (length (attendees e)) \<or> session_id u \<in> set (attendees e)"
  shows "fst (registerForEvent fetch (Some u) eventId (s, log)) = None \<and>
         (\<exists>msg. snd (registerForEvent fetch (Some u) eventId (s, log)) =
                  (s', log @ [Request (GET eventId), Alert msg])) \<and>
         (db eventId = Some e \<longrightarrow>
            registerForEvent eventsResource (Some u) eventId (db, log) =
              (None, (db, log @ [Request (GET eventId),
                 Alert (if capacity e \<le> int (length (attendees e)) then ''This event is full.''
                        else ''You are already registered for this event.'')])))"
proof (intro conjI impI)
  show "fst (registerForEvent fetch (Some u) eventId (s, log)) = None"
    using assms
    by (auto simp: registerForEvent_def getCurrentUser_def send_def okJson_def alert_def)
  show "\<exists>msg. snd (registerForEvent fetch (Some u) eventId (s, log)) =
                  (s', log @ [Request (GET eventId), Alert msg])"
    using assms
    by (auto simp: registerForEvent_def getCurrentUser_def send_def okJson_def alert_def)
next
  assume stored: "db eventId = Some e"
  show "registerForEvent eventsResource (Some u) eventId (db, log) =
          (None, (db, log @ [Request (GET eventId),
             Alert (if capacity e \<le> int (length (attendees e)) then ''This event is full.''
                    else ''You are already registered for this event.'')]))"
  proof (cases "capacity e \<le> int (length (attendees e))")
    case True
    with stored show ?thesis by (simp add: register_stored_full)
  next
    case False
    with assms(2) stored show ?thesis by (simp add: register_stored_already)
  qed
qed

theorem registerForEvent_full_or_duplicate_fails_witness:
  "registerForEvent eventsResource (Some (demoSession 3)) (IdNum 1)
     ([IdNum 1 \<mapsto> demoEvent\<lparr>attendees := [IdNum 1, IdNum 2]\<rparr>], []) =
     (None, ([IdNum 1 \<mapsto> demoEvent\<lparr>attendees := [IdNum 1, IdNum 2]\<rparr>],
             [Request (GET (IdNum 1)), Alert ''This event is full.''])) \<and>
   registerForEvent eventsResource (Some (demoSession 3)) (IdNum 1)
     ([IdNum 1 \<mapsto> demoEvent\<lparr>attendees := [IdNum 3]\<rparr>], []) =
     (None, ([IdNum 1 \<mapsto> demoEvent\<lparr>attendees := [IdNum 3]\<rparr>],
             [Request (GET (IdNum 1)), Alert ''You are already registered for this event.'']))"
proof -
  let ?full = "demoEvent\<lparr>attendees := [IdNum 1, IdNum 2]\<rparr>"
  let ?mine = "demoEvent\<lparr>attendees := [IdNum 3]\<rparr>"
  have g: "eventsResource (GET (IdNum 1)) [IdNum 1 \<mapsto> x] =
      (Response True (Some x), [IdNum 1 \<mapsto> x])" for x
    by (simp add: eventsResource_def)
  have c: "capacity ?full \<le> int (length (attendees ?full)) \<or>
      session_id (demoSession 3) \<in> set (attendees ?full)"
    by (simp add: demoEvent_def Event_def)
  have m: "capacity ?mine \<le> int (length (attendees ?mine)) \<or>
      session_id (demoSession 3) \<in> set (attendees ?mine)"
    by (simp add: demoSession_def)
  have d: "[IdNum 1 \<mapsto> x] (IdNum 1) = Some x" for x :: event
    by simp
  from registerForEvent_full_or_duplicate_fails
         [where fetch = eventsResource and eventId = "IdNum 1" and s = "[IdNum 1 \<mapsto> ?full]"
            and s' = "[IdNum 1 \<mapsto> ?full]" and e = ?full and u = "demoSession 3"
            and log = "[]" and db = "[IdNum 1 \<mapsto> ?full]"] g c d
  have 1: "registerForEvent eventsResource (Some (demoSession 3)) (IdNum 1)
     ([IdNum 1 \<mapsto> ?full], []) =
     (None, ([IdNum 1 \<mapsto> ?full], [Request (GET (IdNum 1)), Alert ''This event is full.'']))"
    by (simp add: demoEvent_def Event_def)
  from registerForEvent_full_or_duplicate_fails
         [where fetch = eventsResource and eventId = "IdNum 1" and s = "[IdNum 1 \<mapsto> ?mine]"
            and s' = "[IdNum 1 \<mapsto> ?mine]" and e = ?mine and u = "demoSession 3"
            and log = "[]" and db = "[IdNum 1 \<mapsto> ?mine]"] g m d
  have 2: "registerForEvent eventsResource (Some (demoSession 3)) (IdNum 1)
     ([IdNum 1 \<mapsto> ?mine], []) =
     (None, ([IdNum 1 \<mapsto> ?mine],
       [Request (GET (IdNum 1)), Alert ''You are already registered for this event.'']))"
    by (simp add: demoEvent_def Event_def)
  from 1 2 show ?thesis by simp
qed

lemma unregister_stored_absent:
  assumes "db i = Some e" and "session_id u \<notin> set (attendees e)"
  shows "unregisterFromEvent eventsResource (Some u) i (db, log) =
     (Some e, (db, log @ [Request (GET i), Request (PATCH i (attendeesBody (attendees e)))]))"
proof -
  have f: "filter (\<lambda>k. k \<noteq> session_id u) (attendees e) = attendees e"
    using assms(2) by (auto intro: filter_True)
  have m: "mergePatch (attendeesBody (attendees e)) e = e"
    by (simp add: mergePatch_attendeesBody)
  from assms(1) have "db(i \<mapsto> e) = db"
    by (rule map_upd_triv)
  with assms(1) show ?thesis
    by (simp add: unregisterFromEvent_def getCurrentUser_def send_eventsResource_GET
          send_eventsResource_PATCH okJson_def f m Let_def)
qed

text \<open>
  C6. With a session, when the attendees fetched do not contain the id of the current
  user, \<open>unregisterFromEvent\<close> sends the attendees back as it fetched them; when that
  write succeeds the call returns the event the store answers with, not \<open>null\<close>.
  Against the events resource it returns the event as it was stored, and the store is
  unchanged.
\<close>

theorem unregisterFromEvent_absent_is_noop:
  assumes "fetch (GET eventId) s = (Response True (Some e), s')"
    and "session_id u \<notin> set (attendees e)"
  shows "(\<forall>e' s''. fetch (PATCH eventId (attendeesBody (attendees e))) s' =
              (Response True (Some e'), s'') \<longrightarrow>
            unregisterFromEvent fetch (Some u) eventId (s, log) =
              (Some e', (s'', log @ [Request (GET eventId),
                                   Request (PATCH eventId (attendeesBody (attendees e)))]))) \<and>
         (db eventId = Some e \<longrightarrow>
            unregisterFromEvent eventsResource (Some u) eventId (db, log) =
              (Some e, (db, log @ [Request (GET eventId),
                                  Request (PATCH eventId (attendeesBody (attendees e)))])))"
proof (intro conjI allI impI)
  fix e' s''
  assume p: "fetch (PATCH eventId (attendeesBody (attendees e))) s' = (Response True (Some e'), s'')"
  have f: "filter (\<lambda>k. k \<noteq> session_id u) (attendees e) = attendees e"
    using assms(2) by (auto intro: filter_True)
  from assms(1) p show "unregisterFromEvent fetch (Some u) eventId (s, log) =
      (Some e', (s'', log @ [Request (GET eventId),
                           Request (PATCH eventId (attendeesBody (attendees e)))]))"
    by (simp add: unregisterFromEvent_def getCurrentUser_def send_def okJson_def f Let_def)
next
  assume "db eventId = Some e"
  then show "unregisterFromEvent eventsResource (Some u) eventId (db, log) =
      (Some e, (db, log @ [Request (GET eventId),
                          Request (PATCH eventId (attendeesBody (attendees e)))]))"
    using assms(2) by (rule unregister_stored_absent)
qed

theorem unregisterFromEvent_absent_is_noop_witness:
  "unregisterFromEvent eventsResource (Some (demoSession 3)) (IdNum 1)
     ([IdNum 1 \<mapsto> demoEvent\<lparr>attendees := [IdNum 1, IdNum 2]\<rparr>], []) =
     (Some (demoEvent\<lparr>attendees := [IdNum 1, IdNum 2]\<rparr>),
      ([IdNum 1 \<mapsto> demoEvent\<lparr>attendees := [IdNum 1, IdNum 2]\<rparr>],
       [Request (GET (IdNum 1)), Request (PATCH (IdNum 1) (attendeesBody [IdNum 1, IdNum 2]))]))"
proof -
  let ?e = "demoEvent\<lparr>attendees := [IdNum 1, IdNum 2]\<rparr>"
  let ?db = "[IdNum 1 \<mapsto> ?e]"
  have g: "eventsResource (GET (IdNum 1)) ?db = (Response True (Some ?e), ?db)"
    by (simp add: eventsResource_def)
  have c: "session_id (demoSession 3) \<notin> set (attendees ?e)"
    by (simp add: demoSession_def)
  have d: "?db (IdNum 1) = Some ?e"
    by simp
  from unregisterFromEvent_absent_is_noop
         [where fetch = eventsResource and eventId = "IdNum 1" and s = ?db and s' = ?db
            and e = ?e and u = "demoSession 3" and log = "[]" and db = ?db] g c d
  show ?thesis
    by simp
qed

text \<open>
  C9. Without a session (\<open>getCurrentUser\<close> returns \<open>null\<close>),
  \<open>unregisterFromEvent\<close> returns \<open>null\<close> and sends no request, neither the read of
  the event nor a write: the store and the record of requests are as before the call.
\<close>

theorem unregisterFromEvent_without_session:
  assumes "getCurrentUser ls = None"
  shows "unregisterFromEvent fetch ls eventId (s, log) = (None, (s, log))"
  using assms by (simp add: unregisterFromEvent_def)

theorem unregisterFromEvent_without_session_witness:
  "getCurrentUser (logOut (Some (demoSession 3))) = None \<and>
   unregisterFromEvent eventsResource (logOut (Some (demoSession 3))) (IdNum 1)
     ([IdNum 1 \<mapsto> demoEvent\<lparr>attendees := [IdNum 3]\<rparr>], []) =
     (None, ([IdNum 1 \<mapsto> demoEvent\<lparr>attendees := [IdNum 3]\<rparr>], []))"
proof -
  have n: "getCurrentUser (logOut (Some (demoSession 3))) = None"
    by (simp add: getCurrentUser_def logOut_def)
  from unregisterFromEvent_without_session [OF n] n show ?thesis
    by simp
qed

text \<open>
  C8. When the event fetched has room and does not list the current user, the one write
  of \<open>registerForEvent\<close> is a PATCH whose body carries the field \<open>attendees\<close> and no
  other, with the attendees fetched, in their order, followed by the id of the current
  user; the call returns what that PATCH answers. Against the events resource the
  event stored afterwards has the title, description, location, date and capacity it
  had, and the new attendees.
\<close>

theorem registerForEvent_patch_frame:
  assumes "fetch (GET eventId) s = (Response True (Some e), s')"
    and "int (length (attendees e)) < capacity e"
    and "session_id u \<notin> set (attendees e)"
  shows "registerForEvent fetch (Some u) eventId (s, log) =
           (okJson (fst (fetch (PATCH eventId
              \<lparr>patch_title = None, patch_description = None, patch_location = None,
               patch_date = None, patch_capacity = None,
               patch_attendees = Some (attendees e @ [session_id u])\<rparr>) s')),
            (snd (fetch (PATCH eventId
              \<lparr>patch_title = None, patch_description = None, patch_location = None,
               patch_date = None, patch_capacity = None,
               patch_attendees = Some (attendees e @ [session_id u])\<rparr>) s'),
             log @ [Request (GET eventId),
                    Request (PATCH eventId
                      \<lparr>patch_title = None, patch_description = None, patch_location = None,
                       patch_date = None, patch_capacity = None,
                       patch_attendees = Some (attendees e @ [session_id u])\<rparr>)])) \<and>
         (db eventId = Some e \<longrightarrow>
            fst (registerForEvent eventsResource (Some u) eventId (db, log)) =
              Some \<lparr>title = title e, description = description e, location = location e,
                    date = date e, capacity = capacity e,
                    attendees = attendees e @ [session_id u]\<rparr> \<and>
            fst (snd (registerForEvent eventsResource (Some u) eventId (db, log))) =
              db(eventId \<mapsto>
                 \<lparr>title = title e, description = description e, location = location e,
                  date = date e, capacity = capacity e,
                  attendees = attendees e @ [session_id u]\<rparr>))"
proof (intro conjI impI)
  show "registerForEvent fetch (Some u) eventId (s, log) =
           (okJson (fst (fetch (PATCH eventId
              \<lparr>patch_title = None, patch_description = None, patch_location = None,
               patch_date = None, patch_capacity = None,
               patch_attendees = Some (attendees e @ [session_id u])\<rparr>) s')),
            (snd (fetch (PATCH eventId
              \<lparr>patch_title = None, patch_description = None, patch_location = None,
               patch_date = None, patch_capacity = None,
               patch_attendees = Some (attendees e @ [session_id u])\<rparr>) s'),
             log @ [Request (GET eventId),
                    Request (PATCH eventId
                      \<lparr>patch_title = None, patch_description = None, patch_location = None,
                       patch_date = None, patch_capacity = None,
                       patch_attendees = Some (attendees e @ [session_id u])\<rparr>)]))"
    using assms
    by (simp add: registerForEvent_def getCurrentUser_def send_def okJson_def attendeesBody_def
          Let_def split: prod.splits)
next
  assume stored: "db eventId = Some e"
  have r: "e\<lparr>attendees := attendees e @ [session_id u]\<rparr> =
      \<lparr>title = title e, description = description e, location = location e,
       date = date e, capacity = capacity e, attendees = attendees e @ [session_id u]\<rparr>"
    by simp
  from register_stored_success [of db eventId e u log] stored assms(2,3)
  show "fst (registerForEvent eventsResource (Some u) eventId (db, log)) =
      Some \<lparr>title = title e, description = description e, location = location e,
            date = date e, capacity = capacity e, attendees = attendees e @ [session_id u]\<rparr>"
    by (simp add: r)
  from register_stored_success [of db eventId e u log] stored assms(2,3)
  show "fst (snd (registerForEvent eventsResource (Some u) eventId (db, log))) =
      db(eventId \<mapsto>
         \<lparr>title = title e, description = description e, location = location e,
          date = date e, capacity = capacity e, attendees = attendees e @ [session_id u]\<rparr>)"
    by (simp add: r)
qed


theorem registerForEvent_patch_frame_witness:
  "registerForEvent eventsResource (Some (demoSession 3)) (IdNum 1)
     ([IdNum 1 \<mapsto> demoEvent\<lparr>attendees := [IdNum 7]\<rparr>], []) =
     (Some \<lparr>title = ''Launch'', description = ''Product launch'', location = ''Hall A'',
            date = ''2025-09-01'', capacity = 2, attendees = [IdNum 7, IdNum 3]\<rparr>,
      ([IdNum 1 \<mapsto>
          \<lparr>title = ''Launch'', description = ''Product launch'', location = ''Hall A'',
           date = ''2025-09-01'', capacity = 2, attendees = [IdNum 7, IdNum 3]\<rparr>],
       [Request (GET (IdNum 1)),
        Request (PATCH (IdNum 1)
          \<lparr>patch_title = None, patch_description = None, patch_location = None,
           patch_date = None, patch_capacity = None,
           patch_attendees = Some [IdNum 7, IdNum 3]\<rparr>)]))"
proof -
  let ?e = "demoEvent\<lparr>attendees := [IdNum 7]\<rparr>"
  let ?db = "[IdNum 1 \<mapsto> ?e]"
  have g: "eventsResource (GET (IdNum 1)) ?db = (Response True (Some ?e), ?db)"
    by (simp add: eventsResource_def)
  have c: "int (length (attendees ?e)) < capacity ?e"
    by (simp add: demoEvent_def Event_def)
  have n: "session_id (demoSession 3) \<notin> set (attendees ?e)"
    by (simp add: demoSession_def)
  from registerForEvent_patch_frame
         [where fetch = eventsResource and eventId = "IdNum 1" and s = ?db and s' = ?db
            and e = ?e and u = "demoSession 3" and log = "[]" and db = ?db] g c n
  show ?thesis
    by (simp add: eventsResource_def okJson_def mergePatch_def demoEvent_def Event_def
          demoSession_def)
qed

text \<open>
  C5. Against the events resource, from an event of capacity \<open>N\<close> with no attendees,
  the sequential enrolment of \<open>N\<close> sessions with distinct ids succeeds at every call
  and leaves those ids as the attendees; one more call, for a session with a new id,
  returns \<open>null\<close> with the alert of a full event and leaves the \<open>N\<close> attendees in
  place. The sequential enrolment of any sessions (\<open>anyUsers\<close>) leaves an event with
  no more attendees than its capacity.
\<close>

theorem sequential_enrolment_fills_to_capacity:
  assumes "db eventId = Some e"
    and "attendees e = []"
    and "capacity e = int N"
    and "length us = N"
    and "distinct (map session_id us)"
    and "session_id u \<notin> set (map session_id us)"
  shows "(\<exists>rs log'.
            enrollSequentially eventsResource us eventId (db, log) =
              (rs, (db(eventId \<mapsto> e\<lparr>attendees := map session_id us\<rparr>), log')) \<and>
            length rs = N \<and> None \<notin> set rs \<and>
            registerForEvent eventsResource (Some u) eventId
                (db(eventId \<mapsto> e\<lparr>attendees := map session_id us\<rparr>), log') =
              (None, (db(eventId \<mapsto> e\<lparr>attendees := map session_id us\<rparr>),
                      log' @ [Request (GET eventId), Alert ''This event is full.'']))) \<and>
         (\<exists>e1. fst (snd (enrollSequentially eventsResource anyUsers eventId (db, log))) eventId =
                  Some e1 \<and>
               int (length (attendees e1)) \<le> capacity e1)"
proof
  let ?e' = "e\<lparr>attendees := map session_id us\<rparr>"
  let ?db' = "db(eventId \<mapsto> ?e')"
  from assms have "\<exists>rs log'. enrollSequentially eventsResource us eventId (db, log) =
           (rs, (db(eventId \<mapsto> e\<lparr>attendees := attendees e @ map session_id us\<rparr>), log')) \<and>
           length rs = length us \<and> None \<notin> set rs"
    by (intro enroll_all_succeed) simp_all
  then obtain rs log' where run:
      "enrollSequentially eventsResource us eventId (db, log) = (rs, (?db', log'))"
      "length rs = N" "None \<notin> set rs"
    using assms(2,4) by auto
  have full: "capacity ?e' \<le> int (length (attendees ?e'))"
    using assms(3,4) by simp
  have "?db' eventId = Some ?e'"
    by simp
  then have "registerForEvent eventsResource (Some u) eventId (?db', log') =
      (None, (?db', log' @ [Request (GET eventId), Alert ''This event is full.'']))"
    using full by (rule register_stored_full)
  with run show "\<exists>rs log'.
            enrollSequentially eventsResource us eventId (db, log) = (rs, (?db', log')) \<and>
            length rs = N \<and> None \<notin> set rs \<and>
            registerForEvent eventsResource (Some u) eventId (?db', log') =
              (None, (?db', log' @ [Request (GET eventId), Alert ''This event is full.'']))"
    by blast
next
  from assms(2,3) have "int (length (attendees e)) \<le> capacity e"
    by simp
  with assms(1) have "\<exists>e1. fst (snd (enrollSequentially eventsResource anyUsers eventId (db, log))) eventId =
        Some e1 \<and> int (length (attendees e1)) \<le> capacity e1 \<and> capacity e1 = capacity e"
    by (rule enroll_preserves_bound)
  then show "\<exists>e1. fst (snd (enrollSequentially eventsResource anyUsers eventId (db, log))) eventId =
        Some e1 \<and> int (length (attendees e1)) \<le> capacity e1"
    by blast
qed

theorem sequential_enrolment_fills_to_capacity_witness:
  "enrollSequentially eventsResource [demoSession 10, demoSession 11] (IdNum 1)
     ([IdNum 1 \<mapsto> demoEvent], []) =
     ([Some (demoEvent\<lparr>attendees := [IdNum 10]\<rparr>),
       Some (demoEvent\<lparr>attendees := [IdNum 10, IdNum 11]\<rparr>)],
      ([IdNum 1 \<mapsto> demoEvent\<lparr>attendees := [IdNum 10, IdNum 11]\<rparr>],
       [Request (GET (IdNum 1)), Request (PATCH (IdNum 1) (attendeesBody [IdNum 10])),
        Request (GET (IdNum 1)),
        Request (PATCH (IdNum 1) (attendeesBody [IdNum 10, IdNum 11]))])) \<and>
   registerForEvent eventsResource (Some (demoSession 12)) (IdNum 1)
     ([IdNum 1 \<mapsto> demoEvent\<lparr>attendees := [IdNum 10, IdNum 11]\<rparr>],
      [Request (GET (IdNum 1)), Request (PATCH (IdNum 1) (attendeesBody [IdNum 10])),
       Request (GET (IdNum 1)),
       Request (PATCH (IdNum 1) (attendeesBody [IdNum 10, IdNum 11]))]) =
     (None,
      ([IdNum 1 \<mapsto> demoEvent\<lparr>attendees := [IdNum 10, IdNum 11]\<rparr>],
       [Request (GET (IdNum 1)), Request (PATCH (IdNum 1) (attendeesBody [IdNum 10])),
        Request (GET (IdNum 1)),
        Request (PATCH (IdNum 1) (attendeesBody [IdNum 10, IdNum 11])),
        Request (GET (IdNum 1)), Alert ''This event is full.'']))"
proof -
  let ?db = "[IdNum 1 \<mapsto> demoEvent]"
  let ?us = "[demoSession 10, demoSession 11]"
  let ?log = "[Request (GET (IdNum 1)), Request (PATCH (IdNum 1) (attendeesBody [IdNum 10])),
       Request (GET (IdNum 1)),
       Request (PATCH (IdNum 1) (attendeesBody [IdNum 10, IdNum 11]))]"
  have a: "attendees demoEvent = []" "capacity demoEvent = int 2"
    by (simp_all add: demoEvent_def Event_def)
  have s1: "registerForEvent eventsResource (Some (demoSession 10)) (IdNum 1) (?db, []) =
      (Some (demoEvent\<lparr>attendees := [IdNum 10]\<rparr>),
       ([IdNum 1 \<mapsto> demoEvent\<lparr>attendees := [IdNum 10]\<rparr>],
        [Request (GET (IdNum 1)), Request (PATCH (IdNum 1) (attendeesBody [IdNum 10]))]))"
    using register_stored_success [of ?db "IdNum 1" demoEvent "demoSession 10" "[]"]
    by (simp add: a demoSession_def)
  have s2: "registerForEvent eventsResource (Some (demoSession 11)) (IdNum 1)
       ([IdNum 1 \<mapsto> demoEvent\<lparr>attendees := [IdNum 10]\<rparr>],
        [Request (GET (IdNum 1)), Request (PATCH (IdNum 1) (attendeesBody [IdNum 10]))]) =
      (Some (demoEvent\<lparr>attendees := [IdNum 10, IdNum 11]\<rparr>),
       ([IdNum 1 \<mapsto> demoEvent\<lparr>attendees := [IdNum 10, IdNum 11]\<rparr>], ?log))"
    using register_stored_success
            [of "[IdNum 1 \<mapsto> demoEvent\<lparr>attendees := [IdNum 10]\<rparr>]" "IdNum 1"
                "demoEvent\<lparr>attendees := [IdNum 10]\<rparr>" "demoSession 11"
                "[Request (GET (IdNum 1)), Request (PATCH (IdNum 1) (attendeesBody [IdNum 10]))]"]
    by (simp add: a demoSession_def)
  have run: "enrollSequentially eventsResource ?us (IdNum 1) (?db, []) =
      ([Some (demoEvent\<lparr>attendees := [IdNum 10]\<rparr>),
        Some (demoEvent\<lparr>attendees := [IdNum 10, IdNum 11]\<rparr>)],
       ([IdNum 1 \<mapsto> demoEvent\<lparr>attendees := [IdNum 10, IdNum 11]\<rparr>], ?log))"
    by (simp add: s1 s2)
  have h: "?db (IdNum 1) = Some demoEvent" "length ?us = 2"
    "distinct (map session_id ?us)" "session_id (demoSession 12) \<notin> set (map session_id ?us)"
    by (simp_all add: demoSession_def)
  from sequential_enrolment_fills_to_capacity
         [of ?db "IdNum 1" demoEvent 2 ?us "demoSession 12" "[]", OF h(1) a h(2,3,4)]
  obtain rs log' where
      r: "enrollSequentially eventsResource ?us (IdNum 1) (?db, []) =
            (rs, (?db(IdNum 1 \<mapsto> demoEvent\<lparr>attendees := map session_id ?us\<rparr>), log'))"
      and f: "registerForEvent eventsResource (Some (demoSession 12)) (IdNum 1)
                (?db(IdNum 1 \<mapsto> demoEvent\<lparr>attendees := map session_id ?us\<rparr>), log') =
              (None, (?db(IdNum 1 \<mapsto> demoEvent\<lparr>attendees := map session_id ?us\<rparr>),
                      log' @ [Request (GET (IdNum 1)), Alert ''This event is full.'']))"
    by blast
  from r run have "log' = ?log"
    by simp
  with f have "registerForEvent eventsResource (Some (demoSession 12)) (IdNum 1)
     ([IdNum 1 \<mapsto> demoEvent\<lparr>attendees := [IdNum 10, IdNum 11]\<rparr>], ?log) =
     (None, ([IdNum 1 \<mapsto> demoEvent\<lparr>attendees := [IdNum 10, IdNum 11]\<rparr>],
       ?log @ [Request (GET (IdNum 1)), Alert ''This event is full.'']))"
    by (simp add: demoSession_def)
  with run show ?thesis by simp
qed

end
